theory Spec2Isabelle
  imports Complex_Main "HOL-Library.Sublist"
begin

section \<open>JavaScript values\<close>

text \<open>
  A JavaScript string is a sequence of UTF-16 code units. The report texts of
  \<^verbatim>\<open>src/lib/compare.js\<close> are Chinese, so strings are lists of code units and the
  literals are written out by code point; \<open>ascii\<close> embeds an ASCII literal.
\<close>

type_synonym jsstring = "nat list"

definition ascii :: "string \<Rightarrow> jsstring" where
  "ascii s = map of_char s"

text \<open>
  \<^verbatim>\<open>String.prototype.startsWith\<close> and \<^verbatim>\<open>String.prototype.includes\<close> (the latter
  under the name \<open>includes_str\<close>).
\<close>

fun startsWith :: "jsstring \<Rightarrow> jsstring \<Rightarrow> bool" where
  "startsWith s [] = True"
| "startsWith [] (c # p) = False"
| "startsWith (d # s) (c # p) = (d = c \<and> startsWith s p)"

fun includes_str :: "jsstring \<Rightarrow> jsstring \<Rightarrow> bool" where
  "includes_str [] sub = startsWith [] sub"
| "includes_str (c # s) sub = (startsWith (c # s) sub \<or> includes_str s sub)"

text \<open>The decimal digits of a non-negative integer, as \<^verbatim>\<open>String(n)\<close> prints them.\<close>

fun digits :: "nat \<Rightarrow> jsstring" where
  "digits n = (if n < 10 then [48 + n] else digits (n div 10) @ [48 + n mod 10])"

declare digits.simps [simp del]

text \<open>
  A JavaScript number is a finite value, an infinity or NaN. Finite values are kept
  exact (a rational): the counts and byte sizes of an inspection report are integers
  far below \<open>2^53\<close>, and the rounding error of IEEE-754 division is outside this model.
\<close>

datatype number = Fin rat | PosInf | NegInf | NaN

text \<open>\<^verbatim>\<open>x / d\<close> and \<^verbatim>\<open>x * k\<close> for an integer \<open>d\<close> or \<open>k\<close> (a count, 100 or 1024).\<close>

fun div_num :: "number \<Rightarrow> int \<Rightarrow> number" where
  "div_num (Fin x) d =
     (if d = 0 then (if x = 0 then NaN else if 0 < x then PosInf else NegInf)
      else Fin (x / of_int d))"
| "div_num PosInf d = (if 0 \<le> d then PosInf else NegInf)"
| "div_num NegInf d = (if 0 \<le> d then NegInf else PosInf)"
| "div_num NaN d = NaN"

fun mul_num :: "number \<Rightarrow> int \<Rightarrow> number" where
  "mul_num (Fin x) k = Fin (x * of_int k)"
| "mul_num PosInf k = (if k = 0 then NaN else if 0 < k then PosInf else NegInf)"
| "mul_num NegInf k = (if k = 0 then NaN else if 0 < k then NegInf else PosInf)"
| "mul_num NaN k = NaN"

text \<open>
  \<^verbatim>\<open>Number.prototype.toFixed(f)\<close> (ECMA-262, 21.1.3.3): a non-finite value prints
  as its name; otherwise the sign is split off, \<open>n\<close> is the integer nearest to
  \<open>x * 10^f\<close> (the larger one on a tie), its digits are padded with zeros to \<open>f + 1\<close>
  places and the point is put before the last \<open>f\<close> of them. The branch for
  \<open>x \<ge> 10^21\<close> (exponent notation) is not reachable from counts below \<open>2^53\<close> and is
  left out.
\<close>

fun toFixed :: "number \<Rightarrow> nat \<Rightarrow> jsstring" where
  "toFixed NaN f = ascii ''NaN''"
| "toFixed PosInf f = ascii ''Infinity''"
| "toFixed NegInf f = ascii ''-Infinity''"
| "toFixed (Fin x) f =
     (let s = (if x < 0 then ascii ''-'' else []);
          n = nat \<lfloor>\<bar>x\<bar> * 10 ^ f + 1 / 2\<rfloor>;
          m = digits n;
          m = (if length m \<le> f then replicate (f + 1 - length m) 48 @ m else m);
          k = length m
      in s @ (if f = 0 then m else take (k - f) m @ ascii ''.'' @ drop (k - f) m))"

section \<open>Inspection reports\<close>

text \<open>
  The two arguments of \<^verbatim>\<open>analyzeComparison\<close> are inspection reports: objects with
  the optional sections \<^verbatim>\<open>scenes\<close>, \<^verbatim>\<open>meshes\<close>, \<^verbatim>\<open>materials\<close>, \<^verbatim>\<open>textures\<close> and
  \<^verbatim>\<open>animations\<close>, each with a \<^verbatim>\<open>properties\<close> field that should be an array. The code
  guards against absent sections and, in one place, against a \<^verbatim>\<open>properties\<close> that is
  not an array, so a field is absent, a JSON scalar or an array. The entries of the
  arrays are well-typed records with optional fields.
\<close>

datatype scalar = SNull | SBool bool | SNum int | SStr jsstring

datatype 'a field = Undefined | Scalar scalar | Array "'a list"

record mesh =
  mesh_vertices :: "int option"
  mesh_size :: "int option"
  mesh_attributes :: "jsstring list option"

record scene =
  scene_uploadVertexCount :: "int option"

record material =
  material_textures :: "jsstring field"

text \<open>
  A section is \<open>None\<close> when the report has no such key and \<open>Some p\<close> when it is an
  object whose \<^verbatim>\<open>properties\<close> is \<open>p\<close>.
\<close>

record inspect =
  scenes :: "scene field option"
  meshes :: "mesh field option"
  materials :: "material field option"
  textures :: "jsstring field option"
  animations :: "jsstring field option"

record options =
  draco :: bool
  ktx2 :: bool

text \<open>
  A JavaScript exception: the \<^verbatim>\<open>TypeError\<close> of calling a missing method, or an
  \<^verbatim>\<open>Error\<close> with its message (thrown by a pipeline stage or by the file system).
\<close>

datatype error = TypeError | Error string

text \<open>\<^verbatim>\<open>section?.properties\<close>: optional chaining gives \<^verbatim>\<open>undefined\<close> for an absent section.\<close>

definition properties :: "'a field option \<Rightarrow> 'a field" where
  "properties sec = (case sec of None \<Rightarrow> Undefined | Some p \<Rightarrow> p)"

text \<open>JavaScript truthiness of a field value.\<close>

fun truthy :: "'a field \<Rightarrow> bool" where
  "truthy Undefined = False"
| "truthy (Scalar SNull) = False"
| "truthy (Scalar (SBool b)) = b"
| "truthy (Scalar (SNum n)) = (n \<noteq> 0)"
| "truthy (Scalar (SStr s)) = (s \<noteq> [])"
| "truthy (Array xs) = True"

text \<open>
  \<^verbatim>\<open>p?.length || 0\<close>: an array and a string have a length, \<^verbatim>\<open>undefined\<close> and
  \<^verbatim>\<open>null\<close> stop the chain, a number or a boolean has no such property.
\<close>

fun length_or_0 :: "'a field \<Rightarrow> nat" where
  "length_or_0 (Array xs) = length xs"
| "length_or_0 (Scalar (SStr s)) = length s"
| "length_or_0 _ = 0"

text \<open>\<^verbatim>\<open>x || 0\<close> for an optional numeric field.\<close>

fun or_0 :: "int option \<Rightarrow> int" where
  "or_0 None = 0"
| "or_0 (Some n) = n"

section \<open>The helper extractors of \<^verbatim>\<open>src/lib/compare.js\<close>\<close>

text \<open>
  \<^verbatim>\<open>reduce\<close>, \<^verbatim>\<open>filter\<close> and \<^verbatim>\<open>forEach\<close> exist on arrays only: called on a truthy
  scalar they raise a \<^verbatim>\<open>TypeError\<close> (``is not a function'').
\<close>

definition getTotalVertices :: "inspect \<Rightarrow> error + int" where
  "getTotalVertices i =
     (if \<not> truthy (properties (meshes i)) then Inr 0
      else case properties (meshes i) of
             Array ms \<Rightarrow> Inr (foldl (\<lambda>sum m. sum + or_0 (mesh_vertices m)) 0 ms)
           | _ \<Rightarrow> Inl TypeError)"

definition TEXCOORD :: jsstring where
  "TEXCOORD = ascii ''TEXCOORD''"

definition has_uv :: "mesh \<Rightarrow> bool" where
  "has_uv m =
     (case mesh_attributes m of
        None \<Rightarrow> False
      | Some attrs \<Rightarrow> list_ex (\<lambda>attr. startsWith attr TEXCOORD) attrs)"

definition countMeshesWithUV :: "inspect \<Rightarrow> error + nat" where
  "countMeshesWithUV i =
     (if \<not> truthy (properties (meshes i)) then Inr 0
      else case properties (meshes i) of
             Array ms \<Rightarrow> Inr (length (filter has_uv ms))
           | _ \<Rightarrow> Inl TypeError)"

definition getMeshCount :: "inspect \<Rightarrow> nat" where
  "getMeshCount i = length_or_0 (properties (meshes i))"

definition getTotalGeometrySize :: "inspect \<Rightarrow> error + int" where
  "getTotalGeometrySize i =
     (if \<not> truthy (properties (meshes i)) then Inr 0
      else case properties (meshes i) of
             Array ms \<Rightarrow> Inr (foldl (\<lambda>sum m. sum + or_0 (mesh_size m)) 0 ms)
           | _ \<Rightarrow> Inl TypeError)"

definition getMaterialCount :: "inspect \<Rightarrow> nat" where
  "getMaterialCount i = length_or_0 (properties (materials i))"

text \<open>
  The \<^verbatim>\<open>forEach\<close> body of \<^verbatim>\<open>countTextures\<close>: a material adds the length of its
  \<^verbatim>\<open>textures\<close> when that is an array.
\<close>

fun add_material_textures :: "nat \<Rightarrow> material \<Rightarrow> nat" where
  "add_material_textures count m =
     (case material_textures m of Array ts \<Rightarrow> count + length ts | _ \<Rightarrow> count)"

definition countTextures :: "inspect \<Rightarrow> error + nat" where
  "countTextures i =
     (case properties (textures i) of
        Array ts \<Rightarrow> Inr (length ts)
      | _ \<Rightarrow>
        (if truthy (properties (materials i)) then
           (case properties (materials i) of
              Array ms \<Rightarrow> Inr (foldl add_material_textures 0 ms)
            | _ \<Rightarrow> Inl TypeError)
         else Inr 0))"

text \<open>
  \<^verbatim>\<open>getUploadVertexCount\<close> reads the first scene. A scalar \<^verbatim>\<open>properties\<close> never
  raises here: a number or boolean has no \<^verbatim>\<open>length\<close>, and the first character of a
  string has no \<^verbatim>\<open>uploadVertexCount\<close>, so the result is 0.
\<close>

definition getUploadVertexCount :: "inspect \<Rightarrow> int" where
  "getUploadVertexCount i =
     (case properties (scenes i) of
        Array (s # rest) \<Rightarrow> or_0 (scene_uploadVertexCount s)
      | _ \<Rightarrow> 0)"

section \<open>The literals of the report\<close>

text \<open>
  The Chinese literals of \<^verbatim>\<open>src/lib/compare.js\<close>, by code point: U+5220 U+9664
  (``delete''), U+589E U+52A0 (``increase''), the three highlight texts, the two
  material reasons and the three texture-compression states.
\<close>

definition zh_delete :: jsstring where
  "zh_delete = [0x5220, 0x9664]"

definition zh_increase :: jsstring where
  "zh_increase = [0x589E, 0x52A0]"

definition msg_uv_removed :: jsstring where
  "msg_uv_removed =
     [0x4F53, 0x79EF, 0x4E0B, 0x964D, 0x4E3B, 0x8981, 0x6765, 0x81EA] @ ascii '' prune ''
     @ zh_delete @ [0x65E0, 0x7528] @ ascii '' UV''"

definition msg_dedup :: "nat \<Rightarrow> nat \<Rightarrow> jsstring" where
  "msg_dedup before after =
     [0x6750, 0x8D28, 0x901A, 0x8FC7] @ ascii '' dedup '' @ [0x4ECE] @ ascii '' ''
     @ digits before @ ascii '' '' @ [0x51CF, 0x5C11, 0x5230] @ ascii '' '' @ digits after"

definition msg_draco :: jsstring where
  "msg_draco = ascii ''Draco '' @ [0x51E0, 0x4F55, 0x538B, 0x7F29, 0x5DF2, 0x5E94, 0x7528]"

definition msg_ktx2 :: jsstring where
  "msg_ktx2 = ascii ''KTX2 '' @ [0x8D34, 0x56FE, 0x538B, 0x7F29, 0x5DF2, 0x5E94, 0x7528]"

definition reason_dedup :: jsstring where
  "reason_dedup = [0xFF08] @ ascii ''dedup'' @ [0xFF09]"

definition reason_increase :: jsstring where
  "reason_increase = [0xFF08] @ zh_increase @ [0xFF09]"

definition status_applied :: jsstring where
  "status_applied = [0x5DF2, 0x5E94, 0x7528]"

definition status_not_applicable :: jsstring where
  "status_not_applicable =
     [0x4E0D, 0x9002, 0x7528, 0xFF08, 0x65E0, 0x8D34, 0x56FE, 0x6A21, 0x578B, 0xFF09]"

definition status_not_enabled :: jsstring where
  "status_not_enabled = [0x672A, 0x542F, 0x7528]"

section \<open>The analyzers\<close>

text \<open>An exception raised by a helper leaves the calling function at once.\<close>

definition and_then :: "error + 'a \<Rightarrow> ('a \<Rightarrow> error + 'b) \<Rightarrow> error + 'b" where
  "and_then m f = (case m of Inl e \<Rightarrow> Inl e | Inr x \<Rightarrow> f x)"

text \<open>\<^verbatim>\<open>x || y\<close> on numbers: the right operand is evaluated when the left one is 0.\<close>

definition or_else :: "int \<Rightarrow> error + int \<Rightarrow> error + int" where
  "or_else x y = (if x \<noteq> 0 then Inr x else y)"

record vertices_analysis =
  vertices_before :: int
  vertices_after :: int
  vertices_diff :: int
  vertices_percent :: jsstring

record uv_analysis =
  uv_before :: nat
  uv_after :: nat
  uv_totalMeshes :: nat
  uv_change :: jsstring

record geometry_analysis =
  geometry_before :: int
  geometry_after :: int
  geometry_beforeMB :: jsstring
  geometry_afterMB :: jsstring
  geometry_diff :: int
  geometry_diffMB :: jsstring
  geometry_percent :: jsstring

record materials_analysis =
  materials_before :: nat
  materials_after :: nat
  materials_diff :: int
  materials_reason :: jsstring

record animations_analysis =
  animations_before :: nat
  animations_after :: nat
  animations_preserved :: bool

record textures_analysis =
  textures_before :: nat
  textures_after :: nat
  textures_hasTextures :: bool
  textures_ktx2Status :: jsstring

record analysis =
  analysis_vertices :: vertices_analysis
  analysis_uv :: uv_analysis
  analysis_geometry :: geometry_analysis
  analysis_materials :: materials_analysis
  analysis_animations :: animations_analysis
  analysis_textures :: textures_analysis
  analysis_highlights :: "jsstring list"

definition analyzeVertices :: "inspect \<Rightarrow> inspect \<Rightarrow> error + vertices_analysis" where
  "analyzeVertices before after =
     and_then (or_else (getUploadVertexCount before) (getTotalVertices before))
       (\<lambda>beforeVertices.
     and_then (or_else (getUploadVertexCount after) (getTotalVertices after))
       (\<lambda>afterVertices.
     let diff = afterVertices - beforeVertices;
         percent = (if beforeVertices > 0
                    then toFixed (mul_num (div_num (Fin (of_int diff)) beforeVertices) 100) 1
                    else ascii ''0.0'')
     in Inr \<lparr>vertices_before = beforeVertices, vertices_after = afterVertices,
             vertices_diff = diff, vertices_percent = percent @ ascii ''%''\<rparr>))"

definition analyzeUV :: "inspect \<Rightarrow> inspect \<Rightarrow> error + uv_analysis" where
  "analyzeUV before after =
     and_then (countMeshesWithUV before) (\<lambda>beforeUVCount.
     and_then (countMeshesWithUV after) (\<lambda>afterUVCount.
     let totalMeshes = getMeshCount before;
         change =
           (if beforeUVCount > 0 \<and> afterUVCount = 0 then ascii ''100% '' @ zh_delete
            else if beforeUVCount > 0 \<and> afterUVCount < beforeUVCount then
              (let deleted = int beforeUVCount - int afterUVCount
               in toFixed (mul_num (div_num (Fin (of_int deleted)) (int beforeUVCount)) 100) 1
                  @ ascii ''% '' @ zh_delete)
            else if afterUVCount > beforeUVCount then
              toFixed (mul_num (div_num (Fin (of_int (int afterUVCount - int beforeUVCount)))
                                        (int beforeUVCount)) 100) 1
              @ ascii ''% '' @ zh_increase
            else ascii ''0%'')
     in Inr \<lparr>uv_before = beforeUVCount, uv_after = afterUVCount,
             uv_totalMeshes = totalMeshes, uv_change = change\<rparr>))"

definition analyzeGeometry :: "inspect \<Rightarrow> inspect \<Rightarrow> error + geometry_analysis" where
  "analyzeGeometry before after =
     and_then (getTotalGeometrySize before) (\<lambda>beforeSize.
     and_then (getTotalGeometrySize after) (\<lambda>afterSize.
     let diff = afterSize - beforeSize;
         percent = (if beforeSize > 0
                    then toFixed (mul_num (div_num (Fin (of_int diff)) beforeSize) 100) 1
                    else ascii ''0.0'')
     in Inr \<lparr>geometry_before = beforeSize, geometry_after = afterSize,
             geometry_beforeMB = toFixed (div_num (div_num (Fin (of_int beforeSize)) 1024) 1024) 2,
             geometry_afterMB = toFixed (div_num (div_num (Fin (of_int afterSize)) 1024) 1024) 2,
             geometry_diff = diff,
             geometry_diffMB = toFixed (div_num (div_num (Fin (of_int diff)) 1024) 1024) 2,
             geometry_percent = percent @ ascii ''%''\<rparr>))"

definition analyzeMaterials :: "inspect \<Rightarrow> inspect \<Rightarrow> materials_analysis" where
  "analyzeMaterials before after =
     (let beforeCount = getMaterialCount before;
          afterCount = getMaterialCount after;
          diff = int afterCount - int beforeCount;
          reason = (if diff < 0 then reason_dedup
                    else if diff > 0 then reason_increase
                    else [])
      in \<lparr>materials_before = beforeCount, materials_after = afterCount,
          materials_diff = diff, materials_reason = reason\<rparr>)"

definition analyzeAnimations :: "inspect \<Rightarrow> inspect \<Rightarrow> animations_analysis" where
  "analyzeAnimations before after =
     (let beforeAnimations = length_or_0 (properties (animations before));
          afterAnimations = length_or_0 (properties (animations after))
      in \<lparr>animations_before = beforeAnimations, animations_after = afterAnimations,
          animations_preserved = (beforeAnimations = afterAnimations \<and> beforeAnimations > 0)\<rparr>)"

definition analyzeTextures :: "inspect \<Rightarrow> inspect \<Rightarrow> options \<Rightarrow> error + textures_analysis" where
  "analyzeTextures before after opts =
     and_then (countTextures before) (\<lambda>beforeTextures.
     and_then (countTextures after) (\<lambda>afterTextures.
     let hasTextures = (beforeTextures > 0 \<or> afterTextures > 0);
         ktx2Status =
           (if ktx2 opts then (if hasTextures then status_applied else status_not_applicable)
            else (if hasTextures then status_not_enabled else status_not_applicable))
     in Inr \<lparr>textures_before = beforeTextures, textures_after = afterTextures,
             textures_hasTextures = hasTextures, textures_ktx2Status = ktx2Status\<rparr>))"

text \<open>\<^verbatim>\<open>generateHighlights\<close>: four tests in a row, each pushing at most one text.\<close>

definition generateHighlights :: "analysis \<Rightarrow> options \<Rightarrow> jsstring list" where
  "generateHighlights a opts =
     (let highlights = [];
          highlights = (if includes_str (uv_change (analysis_uv a)) zh_delete
                        then highlights @ [msg_uv_removed] else highlights);
          highlights = (if materials_diff (analysis_materials a) < 0
                        then highlights @ [msg_dedup (materials_before (analysis_materials a))
                                                     (materials_after (analysis_materials a))]
                        else highlights);
          highlights = (if draco opts then highlights @ [msg_draco] else highlights);
          highlights = (if ktx2 opts \<and> textures_hasTextures (analysis_textures a)
                        then highlights @ [msg_ktx2] else highlights)
      in highlights)"

definition analyzeComparison :: "inspect \<Rightarrow> inspect \<Rightarrow> options \<Rightarrow> error + analysis" where
  "analyzeComparison beforeInspect afterInspect opts =
     and_then (analyzeVertices beforeInspect afterInspect) (\<lambda>v.
     and_then (analyzeUV beforeInspect afterInspect) (\<lambda>u.
     and_then (analyzeGeometry beforeInspect afterInspect) (\<lambda>g.
     and_then (analyzeTextures beforeInspect afterInspect opts) (\<lambda>t.
     let a = \<lparr>analysis_vertices = v, analysis_uv = u, analysis_geometry = g,
              analysis_materials = analyzeMaterials beforeInspect afterInspect,
              analysis_animations = analyzeAnimations beforeInspect afterInspect,
              analysis_textures = t, analysis_highlights = []\<rparr>
     in Inr (a\<lparr>analysis_highlights := generateHighlights a opts\<rparr>)))))"

section \<open>The report printer\<close>



definition zh_animation :: jsstring where
  "zh_animation = [0x52A8, 0x753B]"

definition zh_fully_kept :: jsstring where
  "zh_fully_kept = [0x5B8C, 0x6574, 0x4FDD, 0x7559]"

definition zh_partly_kept :: "nat \<Rightarrow> nat \<Rightarrow> jsstring" where
  "zh_partly_kept after before =
     [0x90E8, 0x5206, 0x4FDD, 0x7559, 0xFF08] @ digits after @ ascii ''/'' @ digits before
     @ [0xFF09]"

definition zh_no_animation_data :: jsstring where
  "zh_no_animation_data = [0x65E0, 0x52A8, 0x753B, 0x6570, 0x636E]"

definition printAnimations :: "animations_analysis \<Rightarrow> jsstring" where
  "printAnimations a =
     (if animations_before a > 0 then
        (let animStatus = (if animations_preserved a then zh_fully_kept
                           else zh_partly_kept (animations_after a) (animations_before a))
         in zh_animation @ animStatus)
      else zh_animation @ [0xFF1A] @ zh_no_animation_data)"

text \<open>
  The printer reads the vertex percentage back with \<^verbatim>\<open>parseFloat\<close>. On a text that
  starts with a decimal numeral \<^verbatim>\<open>-ddd.ddd\<close>, as every text of \<open>toFixed\<close> on a finite
  number does, \<^verbatim>\<open>parseFloat\<close> returns the number that numeral denotes and ignores
  the rest of the text.
\<close>

definition is_digit :: "nat \<Rightarrow> bool" where
  "is_digit c = (48 \<le> c \<and> c \<le> 57)"

fun parse_int_part :: "nat \<Rightarrow> jsstring \<Rightarrow> nat \<times> jsstring" where
  "parse_int_part acc [] = (acc, [])"
| "parse_int_part acc (c # cs) =
     (if is_digit c then parse_int_part (acc * 10 + (c - 48)) cs else (acc, c # cs))"

fun parse_fraction :: "rat \<Rightarrow> rat \<Rightarrow> jsstring \<Rightarrow> rat" where
  "parse_fraction acc scale [] = acc"
| "parse_fraction acc scale (c # cs) =
     (if is_digit c then parse_fraction (acc + of_nat (c - 48) * scale) (scale / 10) cs
      else acc)"

definition parse_unsigned :: "jsstring \<Rightarrow> rat" where
  "parse_unsigned s =
     (case parse_int_part 0 s of
        (n, rest) \<Rightarrow>
          (case rest of
             c # cs \<Rightarrow> if c = 46 then of_nat n + parse_fraction 0 (1 / 10) cs else of_nat n
           | [] \<Rightarrow> of_nat n))"

definition decimal_value :: "jsstring \<Rightarrow> rat" where
  "decimal_value s =
     (case s of
        c # cs \<Rightarrow> if c = 45 then - parse_unsigned cs else parse_unsigned s
      | [] \<Rightarrow> 0)"

section \<open>Inputs on which the extractors do not raise\<close>

text \<open>
  A \<^verbatim>\<open>properties\<close> value is iterable here when it is absent, falsy or an array: the
  guard \<^verbatim>\<open>if (!inspect.meshes?.properties) return 0\<close> stops on the first two, and an
  array has the methods the code calls. A report is safe when its mesh list is
  iterable and its texture count can be taken: from the texture registry when that is
  an array, from an iterable material list otherwise.
\<close>

fun is_array :: "'a field \<Rightarrow> bool" where
  "is_array (Array xs) = True"
| "is_array _ = False"

definition iterable :: "'a field \<Rightarrow> bool" where
  "iterable p = (is_array p \<or> \<not> truthy p)"

definition safe :: "inspect \<Rightarrow> bool" where
  "safe i =
     (iterable (properties (meshes i))
      \<and> (is_array (properties (textures i)) \<or> iterable (properties (materials i))))"

section \<open>The transient file and the orchestrator\<close>



















section \<open>The notions of the specification\<close>

text \<open>
  The specification speaks of the meshes and materials of a snapshot, of sums over
  them, of the vertex metric and of a percentage rounded to one decimal. These are
  its notions, written down independently of the code, to compare the code with.
\<close>

definition mesh_list :: "inspect \<Rightarrow> mesh list" where
  "mesh_list i = (case properties (meshes i) of Array ms \<Rightarrow> ms | _ \<Rightarrow> [])"

definition material_list :: "inspect \<Rightarrow> material list" where
  "material_list i = (case properties (materials i) of Array ms \<Rightarrow> ms | _ \<Rightarrow> [])"

definition sum_mesh_vertices :: "inspect \<Rightarrow> int" where
  "sum_mesh_vertices i = sum_list (map (\<lambda>m. or_0 (mesh_vertices m)) (mesh_list i))"

definition sum_mesh_sizes :: "inspect \<Rightarrow> int" where
  "sum_mesh_sizes i = sum_list (map (\<lambda>m. or_0 (mesh_size m)) (mesh_list i))"

definition uv_mesh_count :: "inspect \<Rightarrow> nat" where
  "uv_mesh_count i = length (filter has_uv (mesh_list i))"

definition texture_refs :: "material \<Rightarrow> nat" where
  "texture_refs m = (case material_textures m of Array ts \<Rightarrow> length ts | _ \<Rightarrow> 0)"

definition vertex_metric :: "inspect \<Rightarrow> int" where
  "vertex_metric i =
     (if getUploadVertexCount i \<noteq> 0 then getUploadVertexCount i else sum_mesh_vertices i)"


text \<open>The percentage of a change \<open>diff\<close> relative to \<open>before\<close>.\<close>

definition percent_of :: "int \<Rightarrow> int \<Rightarrow> rat" where
  "percent_of diff before = of_int diff / of_int before * 100"

section \<open>Building concrete inputs\<close>

text \<open>
  The empty report \<^verbatim>\<open>{}\<close>, a report with the given mesh list and nothing else, and
  a mesh with the given vertex count, byte size and attribute names.
\<close>

definition no_sections :: inspect where
  "no_sections =
     \<lparr>scenes = None, meshes = None, materials = None, textures = None, animations = None\<rparr>"

definition with_meshes :: "mesh list \<Rightarrow> inspect" where
  "with_meshes ms = no_sections\<lparr>meshes := Some (Array ms)\<rparr>"

definition mesh_of :: "int \<Rightarrow> int \<Rightarrow> jsstring list \<Rightarrow> mesh" where
  "mesh_of v sz attrs =
     \<lparr>mesh_vertices = Some v, mesh_size = Some sz, mesh_attributes = Some attrs\<rparr>"

section \<open>Strings and digits\<close>

lemma startsWith_iff_prefix: "startsWith s p \<longleftrightarrow> prefix p s"
  by (induction s p rule: startsWith.induct) auto

lemma includes_str_iff_sublist: "includes_str s sub \<longleftrightarrow> sublist sub s"
  by (induction s) (auto simp: startsWith_iff_prefix sublist_Cons_right)


lemma includes_str_set: "includes_str s sub \<Longrightarrow> set sub \<subseteq> set s"
  by (simp add: includes_str_iff_sublist set_mono_sublist)

lemma digits_not_empty: "digits n \<noteq> []"
  by (subst digits.simps) simp

lemma digits_small: "n < 10 \<Longrightarrow> digits n = [48 + n]"
  by (subst digits.simps) simp

lemma digits_large: "\<not> n < 10 \<Longrightarrow> digits n = digits (n div 10) @ [48 + n mod 10]"
  by (subst digits.simps) simp

lemma digits_range: "c \<in> set (digits n) \<Longrightarrow> 48 \<le> c \<and> c \<le> 57"
proof (induction n rule: digits.induct)
  case (1 n)
  show ?case
  proof (cases "n < 10")
    case True
    with "1.prems" show ?thesis by (simp add: digits_small)
  next
    case False
    from "1.prems" False have "c \<in> set (digits (n div 10)) \<or> c = 48 + n mod 10"
      by (auto simp: digits_large)
    moreover have "n mod 10 < 10" by simp
    ultimately show ?thesis using "1.IH" [OF False] by auto
  qed
qed

lemma toFixed_ascii: "c \<in> set (toFixed x f) \<Longrightarrow> c < 128"
proof (cases x)
  case (Fin q)
  have dig: "d \<in> set (digits n) \<Longrightarrow> d < 128" for d n
    using digits_range [of d n] by simp
  assume "c \<in> set (toFixed x f)"
  with Fin show ?thesis
    by (auto simp: Let_def ascii_def split: if_splits dest!: in_set_takeD in_set_dropD dig)
qed (auto simp: ascii_def)

declare toFixed.simps [simp del]


section \<open>Animations\<close>

text \<open>
  C7. The \<open>preserved\<close> flag of the animation metric is true exactly when the track
  counts before and after are equal and the count before is positive. The printer
  writes its ``no animation data'' line exactly when the count before is zero, so an
  input without animations is told apart from animations lost on the way.
\<close>

theorem animations_preserved_iff:
  "animations_before (analyzeAnimations before after) = length_or_0 (properties (animations before))
   \<and> animations_after (analyzeAnimations before after) = length_or_0 (properties (animations after))
   \<and> (animations_preserved (analyzeAnimations before after) \<longleftrightarrow>
        animations_before (analyzeAnimations before after)
          = animations_after (analyzeAnimations before after)
        \<and> 0 < animations_before (analyzeAnimations before after))
   \<and> (printAnimations (analyzeAnimations before after)
         = zh_animation @ [0xFF1A] @ zh_no_animation_data
       \<longleftrightarrow> animations_before (analyzeAnimations before after) = 0)"
  by (auto simp: analyzeAnimations_def printAnimations_def Let_def zh_animation_def
        zh_fully_kept_def zh_partly_kept_def zh_no_animation_data_def)

theorem animations_preserved_iff_witness:
  "\<not> animations_preserved
       (analyzeAnimations
          \<lparr>scenes = None, meshes = None, materials = None, textures = None,
             animations = Some (Array [ascii ''walk'', ascii ''run''])\<rparr>
          \<lparr>scenes = None, meshes = None, materials = None, textures = None,
             animations = Some (Array [])\<rparr>)
   \<and> printAnimations
       (analyzeAnimations
          \<lparr>scenes = None, meshes = None, materials = None, textures = None,
             animations = Some (Array [ascii ''walk'', ascii ''run''])\<rparr>
          \<lparr>scenes = None, meshes = None, materials = None, textures = None,
             animations = Some (Array [])\<rparr>)
     \<noteq> zh_animation @ [0xFF1A] @ zh_no_animation_data
   \<and> printAnimations
       (analyzeAnimations
          \<lparr>scenes = None, meshes = None, materials = None, textures = None,
             animations = None\<rparr>
          \<lparr>scenes = None, meshes = None, materials = None, textures = None,
             animations = None\<rparr>)
     = zh_animation @ [0xFF1A] @ zh_no_animation_data"
  using animations_preserved_iff
          [of "\<lparr>scenes = None, meshes = None, materials = None, textures = None,
                 animations = Some (Array [ascii ''walk'', ascii ''run''])\<rparr>"
              "\<lparr>scenes = None, meshes = None, materials = None, textures = None,
                 animations = Some (Array [])\<rparr>"]
        animations_preserved_iff
          [of "\<lparr>scenes = None, meshes = None, materials = None, textures = None,
                 animations = None\<rparr>"
              "\<lparr>scenes = None, meshes = None, materials = None, textures = None,
                 animations = None\<rparr>"]
  by (simp add: properties_def)

section \<open>The extractors on iterable inputs\<close>

lemma and_then_Inr: "and_then (Inr x) f = f x"
  by (simp add: and_then_def)

lemma and_then_Inl: "and_then (Inl e) f = Inl e"
  by (simp add: and_then_def)

lemma foldl_add_int: "foldl (\<lambda>sum m. sum + f m) a ms = a + sum_list (map f ms)" for a :: int
  by (induction ms arbitrary: a) auto

lemma foldl_add_material_textures:
  "foldl add_material_textures a ms = a + sum_list (map texture_refs ms)"
  by (induction ms arbitrary: a) (auto simp: texture_refs_def split: field.splits)

lemma getTotalVertices_iterable:
  "iterable (properties (meshes i)) \<Longrightarrow> getTotalVertices i = Inr (sum_mesh_vertices i)"
  by (cases "properties (meshes i)")
     (auto simp: getTotalVertices_def sum_mesh_vertices_def mesh_list_def iterable_def
        foldl_add_int)

lemma getTotalGeometrySize_iterable:
  "iterable (properties (meshes i)) \<Longrightarrow> getTotalGeometrySize i = Inr (sum_mesh_sizes i)"
  by (cases "properties (meshes i)")
     (auto simp: getTotalGeometrySize_def sum_mesh_sizes_def mesh_list_def iterable_def
        foldl_add_int)

lemma countMeshesWithUV_iterable:
  "iterable (properties (meshes i)) \<Longrightarrow> countMeshesWithUV i = Inr (uv_mesh_count i)"
  by (cases "properties (meshes i)")
     (auto simp: countMeshesWithUV_def uv_mesh_count_def mesh_list_def iterable_def)


lemma countTextures_registry:
  "properties (textures i) = Array ts \<Longrightarrow> countTextures i = Inr (length ts)"
  by (simp add: countTextures_def)

lemma countTextures_materials:
  "\<not> is_array (properties (textures i)) \<Longrightarrow> properties (materials i) = Array ms \<Longrightarrow>
   countTextures i = Inr (sum_list (map texture_refs ms))"
  by (cases "properties (textures i)")
     (auto simp: countTextures_def foldl_add_material_textures)

lemma countTextures_neither:
  "\<not> is_array (properties (textures i)) \<Longrightarrow> \<not> truthy (properties (materials i)) \<Longrightarrow>
   countTextures i = Inr 0"
  by (cases "properties (textures i)") (auto simp: countTextures_def)

lemma countTextures_safe: "safe i \<Longrightarrow> \<exists>n. countTextures i = Inr n"
  by (cases "properties (textures i)"; cases "properties (materials i)")
     (auto simp: safe_def countTextures_def iterable_def)


section \<open>The vertex metric\<close>

lemma vertex_count_expression:
  "getUploadVertexCount i \<noteq> 0 \<or> iterable (properties (meshes i)) \<Longrightarrow>
   or_else (getUploadVertexCount i) (getTotalVertices i) = Inr (vertex_metric i)"
  by (auto simp: or_else_def vertex_metric_def getTotalVertices_iterable)

lemma analyzeVertices_value:
  assumes "getUploadVertexCount b \<noteq> 0 \<or> iterable (properties (meshes b))"
    and "getUploadVertexCount a \<noteq> 0 \<or> iterable (properties (meshes a))"
  shows "analyzeVertices b a =
     Inr \<lparr>vertices_before = vertex_metric b, vertices_after = vertex_metric a,
          vertices_diff = vertex_metric a - vertex_metric b,
          vertices_percent =
            (if vertex_metric b > 0
             then toFixed (Fin (percent_of (vertex_metric a - vertex_metric b) (vertex_metric b))) 1
             else ascii ''0.0'') @ ascii ''%''\<rparr>"
  using assms
  by (simp add: analyzeVertices_def vertex_count_expression and_then_Inr Let_def percent_of_def)

text \<open>
  C4. The vertex metric of a snapshot is the \<^verbatim>\<open>uploadVertexCount\<close> of its (first)
  scene when that is present and not zero, whatever the meshes say, and the sum of the
  per-mesh vertex counts otherwise. \<^verbatim>\<open>analyzeVertices\<close> takes it for the before
  snapshot and for the after snapshot separately.
\<close>

theorem vertex_metric_per_snapshot:
  assumes "getUploadVertexCount before \<noteq> 0 \<or> iterable (properties (meshes before))"
    and "getUploadVertexCount after \<noteq> 0 \<or> iterable (properties (meshes after))"
  shows "\<exists>r. analyzeVertices before after = Inr r
     \<and> vertices_before r =
         (if getUploadVertexCount before \<noteq> 0 then getUploadVertexCount before
          else sum_mesh_vertices before)
     \<and> vertices_after r =
         (if getUploadVertexCount after \<noteq> 0 then getUploadVertexCount after
          else sum_mesh_vertices after)
     \<and> getUploadVertexCount before =
         (case properties (scenes before) of
            Array (s # rest) \<Rightarrow> (case scene_uploadVertexCount s of Some n \<Rightarrow> n | None \<Rightarrow> 0)
          | _ \<Rightarrow> 0)
     \<and> getUploadVertexCount after =
         (case properties (scenes after) of
            Array (s # rest) \<Rightarrow> (case scene_uploadVertexCount s of Some n \<Rightarrow> n | None \<Rightarrow> 0)
          | _ \<Rightarrow> 0)"
proof -
  have upload: "getUploadVertexCount i =
         (case properties (scenes i) of
            Array (s # rest) \<Rightarrow> (case scene_uploadVertexCount s of Some n \<Rightarrow> n | None \<Rightarrow> 0)
          | _ \<Rightarrow> 0)" for i
    by (auto simp: getUploadVertexCount_def split: field.splits list.splits option.splits)
  show ?thesis
    using analyzeVertices_value [OF assms] upload [of before] upload [of after]
    by (simp add: vertex_metric_def)
qed

theorem vertex_metric_per_snapshot_witness:
  "\<exists>r. analyzeVertices
          ((with_meshes [mesh_of 300 0 []])
             \<lparr>scenes := Some (Array [\<lparr>scene_uploadVertexCount = Some 500\<rparr>])\<rparr>)
          (with_meshes [mesh_of 100 0 [], mesh_of 150 0 []]) = Inr r
     \<and> vertices_before r = 500 \<and> vertices_after r = 250"
  using vertex_metric_per_snapshot
          [of "(with_meshes [mesh_of 300 0 []])
                 \<lparr>scenes := Some (Array [\<lparr>scene_uploadVertexCount = Some 500\<rparr>])\<rparr>"
              "with_meshes [mesh_of 100 0 [], mesh_of 150 0 []]"]
  by (auto simp: getUploadVertexCount_def properties_def iterable_def sum_mesh_vertices_def
        mesh_list_def with_meshes_def no_sections_def mesh_of_def)

section \<open>The texture metric\<close>

lemma analyzeTextures_value:
  assumes "countTextures b = Inr m" and "countTextures a = Inr n"
  shows "analyzeTextures b a opts =
     Inr \<lparr>textures_before = m, textures_after = n,
          textures_hasTextures = (0 < m \<or> 0 < n),
          textures_ktx2Status =
            (if 0 < m \<or> 0 < n then (if ktx2 opts then status_applied else status_not_enabled)
             else status_not_applicable)\<rparr>"
  using assms by (simp add: analyzeTextures_def and_then_Inr Let_def)

text \<open>
  C6. The texture count of a snapshot is the length of the texture registry
  (\<^verbatim>\<open>textures.properties\<close>) when that is an array; otherwise the sum of the texture
  reference counts of the materials; otherwise (no material list either) zero. When
  both counts of a comparison
  are zero, the texture metric is flagged as having no textures and its state is
  ``not applicable'', whether or not KTX2 was requested.
\<close>

theorem texture_count_sources:
  "(\<forall>ts. properties (textures s) = Array ts \<longrightarrow> countTextures s = Inr (length ts))
   \<and> (\<forall>ms. \<not> is_array (properties (textures s)) \<and> properties (materials s) = Array ms \<longrightarrow>
         countTextures s = Inr (sum_list (map texture_refs ms)))
   \<and> (\<not> is_array (properties (textures s)) \<and> \<not> truthy (properties (materials s)) \<longrightarrow>
         countTextures s = Inr 0)
   \<and> (countTextures before = Inr 0 \<and> countTextures after = Inr 0 \<longrightarrow>
         analyzeTextures before after opts =
           Inr \<lparr>textures_before = 0, textures_after = 0, textures_hasTextures = False,
                textures_ktx2Status = status_not_applicable\<rparr>)"
  by (auto simp: countTextures_registry countTextures_materials countTextures_neither
        analyzeTextures_value)

theorem texture_count_sources_witness:
  "countTextures (no_sections\<lparr>textures := Some (Array [ascii ''a.png'', ascii ''b.png'']),
       materials := Some (Array [\<lparr>material_textures = Array [ascii ''baseColorTexture'']\<rparr>])\<rparr>)
     = Inr 2
   \<and> countTextures (no_sections\<lparr>materials :=
         Some (Array [\<lparr>material_textures = Array [ascii ''baseColorTexture'']\<rparr>,
                      \<lparr>material_textures = Undefined\<rparr>,
                      \<lparr>material_textures =
                         Array [ascii ''baseColorTexture'', ascii ''normalTexture'']\<rparr>])\<rparr>)
     = Inr 3
   \<and> countTextures no_sections = Inr 0
   \<and> analyzeTextures no_sections no_sections \<lparr>draco = False, ktx2 = True\<rparr> =
       Inr \<lparr>textures_before = 0, textures_after = 0, textures_hasTextures = False,
            textures_ktx2Status = status_not_applicable\<rparr>"
  using texture_count_sources
          [of "no_sections\<lparr>textures := Some (Array [ascii ''a.png'', ascii ''b.png'']),
                 materials :=
                   Some (Array [\<lparr>material_textures = Array [ascii ''baseColorTexture'']\<rparr>])\<rparr>"
              no_sections no_sections "\<lparr>draco = False, ktx2 = True\<rparr>"]
        texture_count_sources
          [of "no_sections\<lparr>materials :=
                 Some (Array [\<lparr>material_textures = Array [ascii ''baseColorTexture'']\<rparr>,
                              \<lparr>material_textures = Undefined\<rparr>,
                              \<lparr>material_textures =
                                 Array [ascii ''baseColorTexture'', ascii ''normalTexture'']\<rparr>])\<rparr>"
              no_sections no_sections "\<lparr>draco = False, ktx2 = True\<rparr>"]
        texture_count_sources [of no_sections no_sections no_sections "\<lparr>draco = False, ktx2 = True\<rparr>"]
  by (simp add: properties_def no_sections_def texture_refs_def)

section \<open>The UV change text\<close>


lemma not_includes_str: "c \<in> set sub \<Longrightarrow> c \<notin> set s \<Longrightarrow> \<not> includes_str s sub"
  using includes_str_set by blast


lemma toFixed_no_increase: "\<not> includes_str (toFixed x f @ ascii ''% '' @ zh_delete) zh_increase"
proof (rule not_includes_str [of "0x589E"])
  show "0x589E \<in> set zh_increase" by (simp add: zh_increase_def)
  show "0x589E \<notin> set (toFixed x f @ ascii ''% '' @ zh_delete)"
    using toFixed_ascii [of "0x589E" x f] by (auto simp: ascii_def zh_delete_def)
qed





lemma analyzeUV_value:
  assumes "iterable (properties (meshes b))" and "iterable (properties (meshes a))"
  shows "analyzeUV b a =
     Inr \<lparr>uv_before = uv_mesh_count b, uv_after = uv_mesh_count a,
          uv_totalMeshes = getMeshCount b,
          uv_change =
            (if 0 < uv_mesh_count b \<and> uv_mesh_count a = 0 then ascii ''100% '' @ zh_delete
             else if uv_mesh_count a < uv_mesh_count b then
               toFixed (Fin (percent_of (int (uv_mesh_count b) - int (uv_mesh_count a))
                                         (int (uv_mesh_count b)))) 1
               @ ascii ''% '' @ zh_delete
             else if uv_mesh_count b < uv_mesh_count a then
               toFixed (mul_num (div_num (Fin (of_int (int (uv_mesh_count a)
                                                       - int (uv_mesh_count b))))
                                         (int (uv_mesh_count b))) 100) 1
               @ ascii ''% '' @ zh_increase
             else ascii ''0%'')\<rparr>"
  using assms
  by (auto simp: analyzeUV_def countMeshesWithUV_iterable and_then_Inr Let_def percent_of_def)


section \<open>The composed analysis\<close>

lemma analyzeGeometry_value:
  assumes "iterable (properties (meshes b))" and "iterable (properties (meshes a))"
  shows "analyzeGeometry b a =
     Inr \<lparr>geometry_before = sum_mesh_sizes b, geometry_after = sum_mesh_sizes a,
          geometry_beforeMB =
            toFixed (div_num (div_num (Fin (of_int (sum_mesh_sizes b))) 1024) 1024) 2,
          geometry_afterMB =
            toFixed (div_num (div_num (Fin (of_int (sum_mesh_sizes a))) 1024) 1024) 2,
          geometry_diff = sum_mesh_sizes a - sum_mesh_sizes b,
          geometry_diffMB =
            toFixed (div_num (div_num (Fin (of_int (sum_mesh_sizes a - sum_mesh_sizes b)))
                                      1024) 1024) 2,
          geometry_percent =
            (if sum_mesh_sizes b > 0
             then toFixed (Fin (percent_of (sum_mesh_sizes a - sum_mesh_sizes b)
                                           (sum_mesh_sizes b))) 1
             else ascii ''0.0'') @ ascii ''%''\<rparr>"
  using assms
  by (simp add: analyzeGeometry_def getTotalGeometrySize_iterable and_then_Inr Let_def
        percent_of_def)

lemma generateHighlights_rules:
  "generateHighlights a opts =
     (if includes_str (uv_change (analysis_uv a)) zh_delete then [msg_uv_removed] else [])
     @ (if materials_diff (analysis_materials a) < 0
        then [msg_dedup (materials_before (analysis_materials a))
                        (materials_after (analysis_materials a))]
        else [])
     @ (if draco opts then [msg_draco] else [])
     @ (if ktx2 opts \<and> textures_hasTextures (analysis_textures a) then [msg_ktx2] else [])"
  by (simp add: generateHighlights_def Let_def)


lemma safe_iterable: "safe i \<Longrightarrow> iterable (properties (meshes i))"
  by (simp add: safe_def)


lemma analyzeMaterials_value:
  "analyzeMaterials b a =
     \<lparr>materials_before = getMaterialCount b, materials_after = getMaterialCount a,
      materials_diff = int (getMaterialCount a) - int (getMaterialCount b),
      materials_reason =
        (if getMaterialCount a < getMaterialCount b then reason_dedup
         else if getMaterialCount b < getMaterialCount a then reason_increase
         else [])\<rparr>"
  by (auto simp: analyzeMaterials_def Let_def)


section \<open>The highlight rules\<close>



section \<open>The UV metric\<close>

lemma has_uv_iff:
  "has_uv m \<longleftrightarrow> (\<exists>attrs attr. mesh_attributes m = Some attrs \<and> attr \<in> set attrs
                      \<and> prefix TEXCOORD attr)"
  by (auto simp: has_uv_def list_ex_iff startsWith_iff_prefix split: option.splits)




section \<open>One decimal: \<open>toFixed\<close> and the value it prints\<close>

lemma toFixed_pad_1:
  "(let m = digits n;
        m = (if length m \<le> 1 then replicate (1 + 1 - length m) 48 @ m else m);
        k = length m
    in take (k - 1) m @ ascii ''.'' @ drop (k - 1) m)
   = digits (n div 10) @ [46, 48 + n mod 10]"
proof (cases "n < 10")
  case True
  then have dn: "digits n = [48 + n]" by (rule digits_small)
  from True have d0: "digits (n div 10) = [48]" by (simp add: digits_small)
  show ?thesis
    unfolding Let_def dn d0 using True by (simp add: ascii_def)
next
  case False
  then have d: "digits n = digits (n div 10) @ [48 + n mod 10]"
    by (rule digits_large)
  have len: "length (digits n) = Suc (length (digits (n div 10)))"
    by (subst d) simp
  have pos: "0 < length (digits (n div 10))"
    using digits_not_empty [of "n div 10"] by simp
  have m: "(if length (digits n) \<le> 1 then replicate (1 + 1 - length (digits n)) 48 @ digits n
            else digits n) = digits (n div 10) @ [48 + n mod 10]"
    using len pos d by simp
  show ?thesis
    unfolding Let_def m by (simp add: ascii_def)
qed

lemma toFixed_1:
  "toFixed (Fin x) 1 =
     (if x < 0 then [45] else []) @ digits (nat \<lfloor>\<bar>x\<bar> * 10 + 1 / 2\<rfloor> div 10)
     @ [46, 48 + nat \<lfloor>\<bar>x\<bar> * 10 + 1 / 2\<rfloor> mod 10]"
proof -
  have "toFixed (Fin x) 1 =
          (if x < 0 then ascii ''-'' else [])
          @ (let m = digits (nat \<lfloor>\<bar>x\<bar> * 10 + 1 / 2\<rfloor>);
                 m = (if length m \<le> 1 then replicate (1 + 1 - length m) 48 @ m else m);
                 k = length m
             in take (k - 1) m @ ascii ''.'' @ drop (k - 1) m)"
    unfolding toFixed.simps Let_def by simp
  also have "\<dots> = (if x < 0 then [45] else []) @ digits (nat \<lfloor>\<bar>x\<bar> * 10 + 1 / 2\<rfloor> div 10)
     @ [46, 48 + nat \<lfloor>\<bar>x\<bar> * 10 + 1 / 2\<rfloor> mod 10]"
    unfolding toFixed_pad_1 by (simp add: ascii_def)
  finally show ?thesis .
qed










section \<open>The percentage of a metric\<close>

lemma toFixed_zero_1: "toFixed (Fin 0) 1 = ascii ''0.0''"
  unfolding toFixed_1 by (simp add: digits_small ascii_def)

lemma toFixed_zero_2: "toFixed (Fin 0) 2 = ascii ''0.00''"
proof -
  have "digits 0 = [48]" by (simp add: digits_small)
  then show ?thesis
    by (simp add: toFixed.simps Let_def ascii_def numeral_2_eq_2)
qed









section \<open>A count of zero before\<close>

lemma percent_guarded:
  assumes "iterable (properties (meshes before))" and "iterable (properties (meshes after))"
  shows "vertex_metric before \<le> 0 \<Longrightarrow>
           \<exists>v. analyzeVertices before after = Inr v \<and> vertices_percent v = ascii ''0.0%''"
    and "sum_mesh_sizes before \<le> 0 \<Longrightarrow>
           \<exists>g. analyzeGeometry before after = Inr g \<and> geometry_percent g = ascii ''0.0%''"
  using assms
  by (simp_all add: analyzeVertices_value analyzeGeometry_value ascii_def del: One_nat_def)

text \<open>
  C1. With no UV-bearing mesh before and one after, the UV change text is not zero:
  the third branch of \<^verbatim>\<open>analyzeUV\<close> divides by the count before without the guard
  that its first two branches and the two sibling analyzers have, and prints
  \<^verbatim>\<open>Infinity%\<close> followed by the word for increase.
\<close>

theorem uv_percent_zero_before:
  "analyzeUV (with_meshes [mesh_of 8 96 [ascii ''POSITION'']])
             (with_meshes [mesh_of 8 128 [ascii ''POSITION'', ascii ''TEXCOORD_0'']])
     = Inr \<lparr>uv_before = 0, uv_after = 1, uv_totalMeshes = 1,
            uv_change = ascii ''Infinity% '' @ zh_increase\<rparr>"
  by (simp add: analyzeUV_def countMeshesWithUV_def getMeshCount_def and_then_def Let_def
        with_meshes_def no_sections_def properties_def has_uv_def mesh_of_def TEXCOORD_def
        toFixed.simps ascii_def)

section \<open>A snapshot compared with itself\<close>

lemma no_word_in_compression_texts:
  "\<not> includes_str msg_draco zh_delete" "\<not> includes_str msg_draco zh_increase"
  "\<not> includes_str msg_draco (ascii ''dedup'')"
  "\<not> includes_str msg_ktx2 zh_delete" "\<not> includes_str msg_ktx2 zh_increase"
  "\<not> includes_str msg_ktx2 (ascii ''dedup'')"
  by (simp_all add: msg_draco_def msg_ktx2_def zh_delete_def zh_increase_def ascii_def)

lemma geometry_diffMB_zero:
  "toFixed (div_num (div_num (Fin (of_int 0)) 1024) 1024) 2 = ascii ''0.00''"
  by (simp add: toFixed_zero_2)

text \<open>
  C8. Comparing a snapshot with itself gives a difference of zero and a percentage of
  zero on every metric: the vertex and geometry records have \<open>diff = 0\<close> and the text
  \<^verbatim>\<open>0.0%\<close>, the UV record has equal counts and the text \<^verbatim>\<open>0%\<close>, the material record has
  \<open>diff = 0\<close> and no reason, the animation and texture records have equal counts. The
  highlights then hold at most the two compression texts, and no highlight contains
  the word for deletion, the word for increase or \<^verbatim>\<open>dedup\<close>.
\<close>

theorem compare_with_itself:
  assumes "safe s"
  shows "\<exists>r. analyzeComparison s s opts = Inr r
     \<and> vertices_diff (analysis_vertices r) = 0
     \<and> vertices_percent (analysis_vertices r) = ascii ''0.0%''
     \<and> decimal_value (vertices_percent (analysis_vertices r)) = 0
     \<and> uv_before (analysis_uv r) = uv_after (analysis_uv r)
     \<and> uv_change (analysis_uv r) = ascii ''0%''
     \<and> geometry_diff (analysis_geometry r) = 0
     \<and> geometry_diffMB (analysis_geometry r) = ascii ''0.00''
     \<and> geometry_percent (analysis_geometry r) = ascii ''0.0%''
     \<and> decimal_value (geometry_percent (analysis_geometry r)) = 0
     \<and> materials_before (analysis_materials r) = materials_after (analysis_materials r)
     \<and> materials_diff (analysis_materials r) = 0
     \<and> materials_reason (analysis_materials r) = []
     \<and> animations_before (analysis_animations r) = animations_after (analysis_animations r)
     \<and> textures_before (analysis_textures r) = textures_after (analysis_textures r)
     \<and> set (analysis_highlights r) \<subseteq> {msg_draco, msg_ktx2}
     \<and> (\<forall>h \<in> set (analysis_highlights r).
           \<not> includes_str h zh_delete \<and> \<not> includes_str h zh_increase
           \<and> \<not> includes_str h (ascii ''dedup''))"
proof -
  from assms have it: "iterable (properties (meshes s))" by (rule safe_iterable)
  obtain n where n: "countTextures s = Inr n"
    using countTextures_safe [OF assms] by blast
  have pz: "percent_of 0 b = 0" for b by (simp add: percent_of_def)
  have dz: "decimal_value (ascii ''0.0%'') = 0"
    by (simp add: decimal_value_def parse_unsigned_def is_digit_def ascii_def)
  have v: "analyzeVertices s s =
     Inr \<lparr>vertices_before = vertex_metric s, vertices_after = vertex_metric s,
          vertices_diff = 0, vertices_percent = ascii ''0.0%''\<rparr>"
    using it by (simp add: analyzeVertices_value pz toFixed_zero_1 ascii_def del: One_nat_def)
  have u: "analyzeUV s s =
     Inr \<lparr>uv_before = uv_mesh_count s, uv_after = uv_mesh_count s,
          uv_totalMeshes = getMeshCount s, uv_change = ascii ''0%''\<rparr>"
    by (auto simp: analyzeUV_value [OF it it])
  have g: "analyzeGeometry s s =
     Inr \<lparr>geometry_before = sum_mesh_sizes s, geometry_after = sum_mesh_sizes s,
          geometry_beforeMB =
            toFixed (div_num (div_num (Fin (of_int (sum_mesh_sizes s))) 1024) 1024) 2,
          geometry_afterMB =
            toFixed (div_num (div_num (Fin (of_int (sum_mesh_sizes s))) 1024) 1024) 2,
          geometry_diff = 0, geometry_diffMB = ascii ''0.00'',
          geometry_percent = ascii ''0.0%''\<rparr>"
    using geometry_diffMB_zero
    by (simp add: analyzeGeometry_value [OF it it] pz toFixed_zero_1 ascii_def
          del: One_nat_def)
  note t = analyzeTextures_value [OF n n, of opts]
  have cls: "\<not> includes_str (ascii ''0%'') zh_delete"
    by (simp add: ascii_def zh_delete_def)
  show ?thesis
    unfolding analyzeComparison_def v u g t and_then_Inr Let_def
    by (rule exI, rule conjI, rule refl)
       (auto simp: dz analyzeMaterials_value analyzeAnimations_def Let_def
          generateHighlights_rules cls
          no_word_in_compression_texts)
qed

theorem compare_with_itself_witness:
  "\<exists>r. analyzeComparison
          ((with_meshes [mesh_of 100 4096 [ascii ''POSITION'', ascii ''TEXCOORD_0'']])
             \<lparr>textures := Some (Array [ascii ''wood.png''])\<rparr>)
          ((with_meshes [mesh_of 100 4096 [ascii ''POSITION'', ascii ''TEXCOORD_0'']])
             \<lparr>textures := Some (Array [ascii ''wood.png''])\<rparr>)
          \<lparr>draco = True, ktx2 = True\<rparr> = Inr r
     \<and> vertices_diff (analysis_vertices r) = 0
     \<and> vertices_percent (analysis_vertices r) = ascii ''0.0%''
     \<and> uv_change (analysis_uv r) = ascii ''0%''
     \<and> geometry_diff (analysis_geometry r) = 0
     \<and> materials_diff (analysis_materials r) = 0
     \<and> set (analysis_highlights r) \<subseteq> {msg_draco, msg_ktx2}"
proof -
  define S where "S = (with_meshes [mesh_of 100 4096 [ascii ''POSITION'', ascii ''TEXCOORD_0'']])
             \<lparr>textures := Some (Array [ascii ''wood.png''])\<rparr>"
  have "safe S"
    by (simp add: S_def safe_def with_meshes_def no_sections_def properties_def iterable_def)
  from compare_with_itself [OF this, of "\<lparr>draco = True, ktx2 = True\<rparr>"]
  obtain r where "analyzeComparison S S \<lparr>draco = True, ktx2 = True\<rparr> = Inr r"
    and "vertices_diff (analysis_vertices r) = 0"
    and "vertices_percent (analysis_vertices r) = ascii ''0.0%''"
    and "uv_change (analysis_uv r) = ascii ''0%''"
    and "geometry_diff (analysis_geometry r) = 0"
    and "materials_diff (analysis_materials r) = 0"
    and "set (analysis_highlights r) \<subseteq> {msg_draco, msg_ktx2}"
    by blast
  then show ?thesis unfolding S_def by blast
qed

section \<open>Cleaning up the transient file\<close>






section \<open>Missing and malformed fields\<close>











end
